theory Spec2Isabelle
  imports Complex_Main "HOL-Library.Char_ord" "HOL-Library.List_Lexorder"
    "HOL-Library.Product_Lexorder" "HOL-Library.Sublist"
begin

section \<open>The catalog\<close>

text \<open>
  A row of \<open>netflix_data\<close> after the cleaning step of \<open>load_netflix_data\<close>:
  \<open>release_year\<close> went through \<open>pd.to_numeric(errors='coerce')\<close>, so it is a year or
  NaN (\<open>None\<close> here); \<open>listed_in\<close>, \<open>director\<close> and \<open>country\<close> went through
  \<open>fillna('')\<close>, so they are strings. Only the columns that the functions below read are
  kept. A character is a code point below 256 (Latin-1), which is what the type of
  characters holds; strings compare and sort by code point, as in Python.
\<close>

record title_record =
  title :: string
  type :: string
  release_year :: "int option"
  listed_in :: string
  director :: string
  country :: string

text \<open>
  The frame that \<open>get_smart_recommendations\<close> returns has two more columns,
  \<open>popularity_score\<close> (a float that is always a multiple of one half, hence exact)
  and \<open>genre_count\<close>.
\<close>

record scored_record = title_record +
  popularity_score :: rat
  genre_count :: int

section \<open>Python string operations\<close>

text \<open>
  \<open>str.isspace\<close> on one character: the code points 9 to 13 and 28 to 32, the next-line
  control U+0085 and the no-break space U+00A0.
\<close>

definition isspace :: "char \<Rightarrow> bool" where
  "isspace c =
     (let n = (of_char c :: nat)
      in (9 \<le> n \<and> n \<le> 13) \<or> (28 \<le> n \<and> n \<le> 32) \<or> n = 133 \<or> n = 160)"

text \<open>\<open>s.strip()\<close>.\<close>

definition strip :: "string \<Rightarrow> string" where
  "strip s = rev (dropWhile isspace (rev (dropWhile isspace s)))"

text \<open>\<open>s.split(',')\<close>: never an empty list; the empty string gives \<open>['']\<close>.\<close>

fun split_comma :: "string \<Rightarrow> string list" where
  "split_comma [] = [[]]"
| "split_comma (c # cs) =
     (if c = CHR '','' then [] # split_comma cs
      else (let ts = split_comma cs in (c # hd ts) # tl ts))"

text \<open>\<open>s.count(',')\<close>.\<close>

definition count_comma :: "string \<Rightarrow> nat" where
  "count_comma s = count_list s (CHR '','')"

text \<open>
  The lower-case form of one character, by which \<open>re.IGNORECASE\<close> compares letters: the
  capitals \<open>A\<close> to \<open>Z\<close> and the accented capitals U+00C0 to U+00DE (but not the
  multiplication sign U+00D7) move up by 32; every other code point below 256 is its own
  lower-case form or has none below 256.
\<close>

definition lower_char :: "char \<Rightarrow> char" where
  "lower_char c =
     (let n = (of_char c :: nat)
      in if (65 \<le> n \<and> n \<le> 90) \<or> (192 \<le> n \<and> n \<le> 222 \<and> n \<noteq> 215)
         then char_of (n + 32) else c)"

section \<open>Regular expressions, as \<open>Series.str.contains\<close> uses them\<close>

text \<open>
  \<open>Series.str.contains(pat, case=False, na=False)\<close> is called with its default
  \<open>regex=True\<close>: it compiles \<open>pat\<close> with \<open>re.compile(pat, re.IGNORECASE)\<close> (which raises
  \<open>re.error\<close> on a malformed pattern, before any row is looked at) and keeps the rows
  where \<open>regex.search\<close> finds a match.

  The patterns built from ordinary characters and the dot are modelled here in full:
  an ordinary character matches itself up to letter case, the dot matches every
  character but the newline. A pattern that opens a group with \<open>(\<close> and holds no
  \<open>)\<close>, no \<open>[\<close> and no backslash cannot be compiled: the parenthesis is neither escaped
  nor inside a character class, and the group is never closed. For every other pattern
  that uses a special character of \<open>re\<close>, the engine is a parameter \<open>re_ext\<close> of the
  model: \<open>re_ext pat\<close> is \<open>None\<close> when compiling \<open>pat\<close> raises, and the search predicate of
  the compiled pattern otherwise.
\<close>

datatype re_item = Lit char | AnyChar

type_synonym py_regex = "string \<Rightarrow> (string \<Rightarrow> bool) option"

text \<open>The special characters of \<open>re\<close>: \<open>. ^ $ * + ? { } [ ] | ( )\<close> and the backslash.\<close>

definition is_special :: "char \<Rightarrow> bool" where
  "is_special c = (c \<in> set ''.^$*+?{}[]|()'' \<or> c = CHR 0x5C)"

fun re_parse_simple :: "string \<Rightarrow> re_item list option" where
  "re_parse_simple [] = Some []"
| "re_parse_simple (c # cs) =
     (if c = CHR ''.'' then map_option ((#) AnyChar) (re_parse_simple cs)
      else if is_special c then None
      else map_option ((#) (Lit c)) (re_parse_simple cs))"

fun item_matches :: "re_item \<Rightarrow> char \<Rightarrow> bool" where
  "item_matches (Lit a) c = (lower_char a = lower_char c)"
| "item_matches AnyChar c = (c \<noteq> CHR 0x0A)"

text \<open>\<open>regex.match\<close> at the start of the text, then \<open>regex.search\<close> at any position.\<close>

fun match_here :: "re_item list \<Rightarrow> string \<Rightarrow> bool" where
  "match_here [] s = True"
| "match_here (i # is) [] = False"
| "match_here (i # is) (c # cs) = (item_matches i c \<and> match_here is cs)"

fun re_search :: "re_item list \<Rightarrow> string \<Rightarrow> bool" where
  "re_search is [] = match_here is []"
| "re_search is (c # cs) = (match_here is (c # cs) \<or> re_search is cs)"

definition re_unterminated :: "string \<Rightarrow> bool" where
  "re_unterminated pat =
     (CHR ''('' \<in> set pat \<and> CHR '')'' \<notin> set pat \<and> CHR ''['' \<notin> set pat
      \<and> CHR 0x5C \<notin> set pat)"

definition str_contains :: "py_regex \<Rightarrow> string \<Rightarrow> (string \<Rightarrow> bool) option" where
  "str_contains re_ext pat =
     (case re_parse_simple pat of
        Some items \<Rightarrow> Some (re_search items)
      | None \<Rightarrow> if re_unterminated pat then None else re_ext pat)"

section \<open>\<open>get_smart_recommendations\<close>\<close>

datatype error = RegexError

text \<open>
  One \<open>if pat: filtered = filtered[filtered[col].str.contains(pat, case=False, na=False)]\<close>.
  \<open>None\<close> and the empty string are falsy and leave the frame as it is.
\<close>

fun filter_contains ::
  "py_regex \<Rightarrow> string option \<Rightarrow> (title_record \<Rightarrow> string) \<Rightarrow> title_record list
     \<Rightarrow> error + title_record list" where
  "filter_contains re_ext None col rows = Inr rows"
| "filter_contains re_ext (Some pat) col rows =
     (if pat = [] then Inr rows
      else (case str_contains re_ext pat of
              None \<Rightarrow> Inl RegexError
            | Some found \<Rightarrow> Inr (filter (\<lambda>r. found (col r)) rows)))"

text \<open>\<open>filtered['release_year'] >= min_year\<close>: a comparison with NaN is false.\<close>

definition year_ge :: "'a title_record_scheme \<Rightarrow> int \<Rightarrow> bool" where
  "year_ge r y = (case release_year r of None \<Rightarrow> False | Some v \<Rightarrow> y \<le> v)"

text \<open>The filtering part of the function, up to and including the minimum year.\<close>

definition apply_filters ::
  "py_regex \<Rightarrow> title_record list \<Rightarrow> string option \<Rightarrow> string option \<Rightarrow> string option
     \<Rightarrow> string \<Rightarrow> int \<Rightarrow> error + title_record list" where
  "apply_filters re_ext netflix_data genre director_arg country_arg content_type min_year =
     (case filter_contains re_ext genre listed_in netflix_data of
        Inl e \<Rightarrow> Inl e
      | Inr by_genre \<Rightarrow>
     (case filter_contains re_ext director_arg director by_genre of
        Inl e \<Rightarrow> Inl e
      | Inr by_director \<Rightarrow>
     (case filter_contains re_ext country_arg country by_director of
        Inl e \<Rightarrow> Inl e
      | Inr by_country \<Rightarrow>
          Inr (filter (\<lambda>r. year_ge r min_year)
                 (if content_type \<noteq> ''Both''
                  then filter (\<lambda>r. type r = content_type) by_country
                  else by_country)))))"

text \<open>\<open>filtered.loc[filtered['release_year'] >= y, 'popularity_score'] += b\<close> on one row.\<close>

definition add_bonus :: "int \<Rightarrow> rat \<Rightarrow> title_record \<Rightarrow> rat \<Rightarrow> rat" where
  "add_bonus y b r s = (if year_ge r y then s + b else s)"

text \<open>The column \<open>popularity_score\<close> after the three "newer content bonus" statements.\<close>

definition recency_score :: "title_record \<Rightarrow> rat" where
  "recency_score r = add_bonus 2010 1 r (add_bonus 2015 2 r (add_bonus 2018 3 r 0))"

text \<open>\<open>filtered['listed_in'].str.count(',') + 1\<close>.\<close>

definition genre_count_of :: "title_record \<Rightarrow> int" where
  "genre_count_of r = int (count_comma (listed_in r)) + 1"

definition score_row :: "title_record \<Rightarrow> scored_record" where
  "score_row r =
     title_record.extend r
       (scored_record.fields
          (recency_score r + of_int (genre_count_of r) * (1 / 2))
          (genre_count_of r))"

text \<open>
  \<open>sort_values(['popularity_score', 'release_year'], ascending=[False, False])\<close>: a sort on
  several columns is a stable lexicographic sort, and NaN goes last.
\<close>

definition year_key :: "scored_record \<Rightarrow> nat \<times> int" where
  "year_key s = (case release_year s of None \<Rightarrow> (1, 0) | Some y \<Rightarrow> (0, - y))"

definition rank_key :: "scored_record \<Rightarrow> rat \<times> nat \<times> int" where
  "rank_key s = (- popularity_score s, year_key s)"

definition sort_values :: "scored_record list \<Rightarrow> scored_record list" where
  "sort_values rows = sort_key rank_key rows"

text \<open>\<open>DataFrame.head(n)\<close>: the first \<open>n\<close> rows, or all but the last \<open>-n\<close> when \<open>n < 0\<close>.\<close>

definition head :: "int \<Rightarrow> 'a list \<Rightarrow> 'a list" where
  "head n rows = (if 0 \<le> n then take (nat n) rows else take (length rows - nat (- n)) rows)"

definition get_smart_recommendations ::
  "py_regex \<Rightarrow> title_record list \<Rightarrow> string option \<Rightarrow> string option \<Rightarrow> string option
     \<Rightarrow> string \<Rightarrow> int \<Rightarrow> int \<Rightarrow> error + scored_record list" where
  "get_smart_recommendations re_ext netflix_data genre director_arg country_arg content_type
       count min_year =
     (case apply_filters re_ext netflix_data genre director_arg country_arg content_type
             min_year of
        Inl e \<Rightarrow> Inl e
      | Inr filtered \<Rightarrow>
          if filtered \<noteq> [] then Inr (head count (sort_values (map score_row filtered)))
          else Inr [])"

text \<open>
  An engine for the concrete examples: it refuses every pattern outside the modelled
  fragment. All concrete patterns below are inside the fragment, where the engine is
  not asked.
\<close>

definition re_refuse :: py_regex where
  "re_refuse pat = None"

text \<open>The two-row catalog used as the running example.\<close>

definition row_A :: title_record where
  "row_A = \<lparr>title = ''A'', type = ''Movie'', release_year = Some 2019,
            listed_in = ''Comedies,Dramas'', director = ''X'', country = ''US''\<rparr>"

definition row_B :: title_record where
  "row_B = \<lparr>title = ''B'', type = ''Movie'', release_year = Some 2010,
            listed_in = ''Dramas'', director = ''Y'', country = ''US''\<rparr>"

definition row_C :: title_record where
  "row_C = \<lparr>title = ''C'', type = ''TV Show'', release_year = Some 2010,
            listed_in = ''Comedies'', director = '''', country = ''India''\<rparr>"

text \<open>A row without genres, and a row without a year whose genre list ends in a comma.\<close>

definition row_E :: title_record where
  "row_E = \<lparr>title = ''E'', type = ''Movie'', release_year = Some 2005,
            listed_in = '''', director = ''X'', country = ''US''\<rparr>"

definition row_T :: title_record where
  "row_T = \<lparr>title = ''T'', type = ''TV Show'', release_year = None,
            listed_in = ''Dramas,'', director = ''X, Z'', country = ''''\<rparr>"

section \<open>The predicate filter and the ranking, in the words of the specification\<close>

text \<open>
  These definitions follow the specification, not the source; the theorems below compare
  them with the functions above. \<open>ci_substring pat s\<close>: \<open>pat\<close> is a case-insensitive plain
  substring of \<open>s\<close>.
\<close>

definition ci_substring :: "string \<Rightarrow> string \<Rightarrow> bool" where
  "ci_substring pat s = sublist (map lower_char pat) (map lower_char s)"

text \<open>An optional filter string made of ordinary characters only.\<close>

definition plain :: "string option \<Rightarrow> bool" where
  "plain q = (case q of None \<Rightarrow> True | Some pat \<Rightarrow> list_all (\<lambda>c. \<not> is_special c) pat)"

text \<open>The filter is absent, or a case-insensitive substring of the field.\<close>

definition field_ok :: "string option \<Rightarrow> string \<Rightarrow> bool" where
  "field_ok q s = (case q of None \<Rightarrow> True | Some pat \<Rightarrow> ci_substring pat s)"

text \<open>Step 1 of the recommendation engine: the predicate that a record passes.\<close>

definition passes ::
  "string option \<Rightarrow> string option \<Rightarrow> string option \<Rightarrow> string \<Rightarrow> int \<Rightarrow> title_record \<Rightarrow> bool" where
  "passes genre director_arg country_arg content_type min_year r =
     (field_ok genre (listed_in r) \<and> field_ok director_arg (director r)
      \<and> field_ok country_arg (country r)
      \<and> (content_type = ''Both'' \<or> type r = content_type)
      \<and> (case release_year r of None \<Rightarrow> False | Some y \<Rightarrow> min_year \<le> y))"

text \<open>
  Step 3: \<open>a\<close> may stand before \<open>b\<close> in a list sorted by score descending, then release
  year descending, with an unknown year after every known one.
\<close>

definition ranked_before :: "scored_record \<Rightarrow> scored_record \<Rightarrow> bool" where
  "ranked_before a b =
     (popularity_score b < popularity_score a
      \<or> (popularity_score a = popularity_score b
         \<and> (case release_year b of
               None \<Rightarrow> True
             | Some y \<Rightarrow> (case release_year a of None \<Rightarrow> False | Some x \<Rightarrow> y \<le> x))))"

section \<open>\<open>collections.Counter\<close>\<close>

text \<open>
  A \<open>Counter\<close> is a dict, and a dict keeps its keys in the order of their first
  insertion: an association list, with a new key added at the end.
\<close>

fun counter_add :: "'a \<Rightarrow> ('a \<times> nat) list \<Rightarrow> ('a \<times> nat) list" where
  "counter_add x [] = [(x, 1)]"
| "counter_add x ((k, c) # kcs) =
     (if k = x then (k, c + 1) # kcs else (k, c) # counter_add x kcs)"

definition Counter :: "'a list \<Rightarrow> ('a \<times> nat) list" where
  "Counter xs = foldl (\<lambda>acc x. counter_add x acc) [] xs"

text \<open>
  \<open>most_common(n)\<close> is \<open>sorted(items, key=count, reverse=True)[:n]\<close>: a stable sort, so
  equal counts stay in the order of first occurrence.
\<close>

definition most_common :: "nat \<Rightarrow> ('a \<times> nat) list \<Rightarrow> ('a \<times> nat) list" where
  "most_common n items = take n (sort_key (\<lambda>(k, c). - int c) items)"

section \<open>\<open>get_dropdown_options\<close> and \<open>analyze_netflix_data\<close>\<close>

text \<open>\<open>[g.strip() for g in s.split(',')]\<close>.\<close>

definition tokens :: "string \<Rightarrow> string list" where
  "tokens s = map strip (split_comma s)"

text \<open>
  The loops over a column that \<open>extend\<close> a list with the tokens of every value:
  \<open>get_dropdown_options\<close> skips the empty strings (\<open>if genres:\<close>),
  \<open>analyze_netflix_data\<close> does not.
\<close>

fun collect_nonempty :: "string list \<Rightarrow> string list" where
  "collect_nonempty [] = []"
| "collect_nonempty (s # ss) =
     (if s \<noteq> [] then tokens s @ collect_nonempty ss else collect_nonempty ss)"

fun collect_all :: "string list \<Rightarrow> string list" where
  "collect_all [] = []"
| "collect_all (s # ss) = tokens s @ collect_all ss"



record analysis =
  total_titles :: nat
  movies :: nat
  tv_shows :: nat
  top_genres :: "(string \<times> nat) list"
  year_distribution :: "(int \<times> nat) list"
  top_countries :: "(string \<times> nat) list"

text \<open>\<open>value_counts().sort_index()\<close>: NaN is not counted, the index ascends.\<close>

definition value_counts_sorted :: "int option list \<Rightarrow> (int \<times> nat) list" where
  "value_counts_sorted col =
     (let known = concat (map (\<lambda>v. case v of None \<Rightarrow> [] | Some y \<Rightarrow> [y]) col)
      in map (\<lambda>y. (y, count_list known y)) (sort (remdups known)))"

definition analyze_netflix_data :: "title_record list \<Rightarrow> analysis" where
  "analyze_netflix_data data =
     (let all_genres = collect_all (map listed_in data);
          all_countries = collect_all (map country data)
      in \<lparr>total_titles = length data,
          movies = length (filter (\<lambda>r. type r = ''Movie'') data),
          tv_shows = length (filter (\<lambda>r. type r = ''TV Show'') data),
          top_genres = most_common 10 (Counter all_genres),
          year_distribution = value_counts_sorted (map release_year data),
          top_countries = most_common 10 (Counter all_countries)\<rparr>)"

section \<open>Occurrences of a token, in the words of the specification\<close>







section \<open>Basic facts about the pipeline\<close>

lemma filter_contains_Inr:
  "filter_contains re_ext p col rows = Inr rs \<Longrightarrow> \<exists>P. rs = filter P rows"
proof (cases p)
  case None
  assume "filter_contains re_ext p col rows = Inr rs"
  with None have "rs = filter (\<lambda>_. True) rows" by simp
  then show ?thesis by blast
next
  case (Some pat)
  assume h: "filter_contains re_ext p col rows = Inr rs"
  show ?thesis
  proof (cases "pat = []")
    case True
    with h Some have "rs = filter (\<lambda>_. True) rows" by simp
    then show ?thesis by blast
  next
    case False
    with h Some show ?thesis by (auto split: option.splits)
  qed
qed

lemma apply_filters_Inr:
  assumes "apply_filters re_ext cat g d c t m = Inr fs"
  shows "\<exists>P. fs = filter (\<lambda>r. year_ge r m \<and> P r) cat"
proof -
  from assms obtain f1 f2 f3 where
    f1: "filter_contains re_ext g listed_in cat = Inr f1" and
    f2: "filter_contains re_ext d director f1 = Inr f2" and
    f3: "filter_contains re_ext c country f2 = Inr f3" and
    fs: "fs = filter (\<lambda>r. year_ge r m)
                (if t \<noteq> ''Both'' then filter (\<lambda>r. type r = t) f3 else f3)"
    by (auto simp: apply_filters_def split: sum.splits)
  from f1 obtain P1 where p1: "f1 = filter P1 cat" using filter_contains_Inr by blast
  from f2 obtain P2 where p2: "f2 = filter P2 f1" using filter_contains_Inr by blast
  from f3 obtain P3 where p3: "f3 = filter P3 f2" using filter_contains_Inr by blast
  let ?P = "\<lambda>r. (t \<noteq> ''Both'' \<longrightarrow> type r = t) \<and> P3 r \<and> P2 r \<and> P1 r"
  have "fs = filter (\<lambda>r. year_ge r m \<and> ?P r) cat"
    unfolding fs p3 p2 p1 by (auto intro: filter_cong)
  then show ?thesis by (rule exI [of _ ?P])
qed

lemma recommendations_Inr:
  assumes "get_smart_recommendations re_ext cat g d c t n m = Inr res"
  shows "\<exists>fs. apply_filters re_ext cat g d c t m = Inr fs
           \<and> res = head n (sort_values (map score_row fs))"
  using assms
  by (auto simp: get_smart_recommendations_def head_def sort_values_def split: sum.splits if_splits)

lemma set_head: "set (head n rows) \<subseteq> set rows"
  by (auto simp: head_def dest: in_set_takeD)

lemma set_sort_values: "set (sort_values rows) = set rows"
  by (simp add: sort_values_def)

lemma recommendations_rows:
  assumes "get_smart_recommendations re_ext cat g d c t n m = Inr res" and "s \<in> set res"
  shows "\<exists>r \<in> set cat. s = score_row r \<and> year_ge r m"
proof -
  from assms(1) obtain fs where fs: "apply_filters re_ext cat g d c t m = Inr fs"
    and res: "res = head n (sort_values (map score_row fs))"
    using recommendations_Inr by blast
  from fs obtain P where P: "fs = filter (\<lambda>r. year_ge r m \<and> P r) cat"
    using apply_filters_Inr by blast
  from assms(2) have "s \<in> set (sort_values (map score_row fs))"
    unfolding res using set_head [of n "sort_values (map score_row fs)"] by (rule_tac subsetD)
  then have "s \<in> score_row ` set fs"
    by (simp only: set_sort_values set_map)
  then obtain r where r: "r \<in> set fs" "s = score_row r" by (rule imageE)
  from r(1) have "r \<in> set cat \<and> year_ge r m" unfolding P by simp
  with r(2) show ?thesis by blast
qed

lemma recommendations_of_filtered:
  assumes "apply_filters re_ext cat g d c t m = Inr fs"
  shows "get_smart_recommendations re_ext cat g d c t n m
         = Inr (head n (sort_values (map score_row fs)))"
proof (cases "fs = []")
  case True
  with assms show ?thesis
    by (simp add: get_smart_recommendations_def head_def sort_values_def)
next
  case False
  with assms show ?thesis by (simp add: get_smart_recommendations_def)
qed

lemma length_sort_values: "length (sort_values rows) = length rows"
  by (simp add: sort_values_def)

lemma head_prefix: "prefix (head n rows) rows"
  by (simp add: head_def take_is_prefix)

lemma recency_score_cases:
  "release_year r = Some y \<Longrightarrow>
   recency_score r = (if 2018 \<le> y then 6 else if 2015 \<le> y then 3 else if 2010 \<le> y then 1 else 0)"
  by (simp add: recency_score_def add_bonus_def year_ge_def)

lemma score_row_sel:
  "popularity_score (score_row r) = recency_score r + of_int (genre_count_of r) * (1 / 2)"
  "genre_count (score_row r) = genre_count_of r"
  "release_year (score_row r) = release_year r"
  "listed_in (score_row r) = listed_in r"
  "title_record.truncate (score_row r) = r"
  by (simp_all add: score_row_def title_record.defs scored_record.defs)

lemma head_length:
  "int (length (head n rows))
   = (if 0 \<le> n then min n (int (length rows)) else max 0 (int (length rows) + n))"
  by (auto simp: head_def min_def max_def)

subsection \<open>The running examples, evaluated\<close>

lemma example_result: "get_smart_recommendations re_refuse [row_A, row_B] (Some ''Dramas'') None None ''Both'' 10 2000 = Inr [score_row row_A, score_row row_B]"
  by code_simp

lemma example_filtered:
  "apply_filters re_refuse [row_A, row_B] (Some ''Dramas'') None None ''Both'' 2000
     = Inr [row_A, row_B]"
  by code_simp

lemma example_sorted: "sort_values (map score_row [row_A, row_B]) = [score_row row_A, score_row row_B]"
  by code_simp

lemma row_A_score: "popularity_score (score_row row_A) = 7"
  by (simp add: score_row_sel recency_score_def add_bonus_def year_ge_def row_A_def
        genre_count_of_def count_comma_def)

lemma row_A_genre_count: "genre_count (score_row row_A) = 2"
  by (simp add: score_row_sel genre_count_of_def count_comma_def row_A_def)

lemma tie_filtered:
  "apply_filters re_refuse [row_B, row_A, row_C] None None None ''Both'' 2000
   = Inr [row_B, row_A, row_C]"
  by code_simp

lemma tie_result:
  "get_smart_recommendations re_refuse [row_B, row_A, row_C] None None None ''Both'' 10 2000
   = Inr [score_row row_A, score_row row_B, score_row row_C]"
  by code_simp

lemma example_first:
  "get_smart_recommendations re_refuse [row_A, row_B] (Some ''Dramas'') None None ''Both'' 1 2000
   = Inr [score_row row_A]"
  by code_simp

lemma example_minus_one:
  "get_smart_recommendations re_refuse [row_A, row_B] (Some ''Dramas'') None None ''Both''
     (- 1) 2000 = Inr [score_row row_A]"
  by code_simp

lemma nonexistent_example:
  "get_smart_recommendations re_refuse [row_A, row_B, row_C] (Some ''Nonexistent'') None None
     ''Both'' 10 1900 = Inr []"
  by code_simp

subsection \<open>Patterns of ordinary characters search for a substring\<close>

lemma dot_special: "is_special (CHR ''.'')"
  by (simp add: is_special_def)

lemma re_parse_simple_plain:
  "list_all (\<lambda>c. \<not> is_special c) pat \<Longrightarrow> re_parse_simple pat = Some (map Lit pat)"
proof (induction pat)
  case Nil
  show ?case by simp
next
  case (Cons c cs)
  from Cons.prems have c: "\<not> is_special c" and cs: "list_all (\<lambda>c. \<not> is_special c) cs"
    by simp_all
  from c dot_special have "c \<noteq> CHR ''.''" by blast
  with c Cons.IH [OF cs] show ?case by simp
qed

lemma match_here_Lit:
  "match_here (map Lit pat) s = prefix (map lower_char pat) (map lower_char s)"
proof (induction pat arbitrary: s)
  case Nil
  show ?case by simp
next
  case (Cons a as)
  show ?case
  proof (cases s)
    case Nil
    then show ?thesis by simp
  next
    case (Cons c cs)
    with Cons.IH [of cs] show ?thesis by simp
  qed
qed

lemma re_search_Lit:
  "re_search (map Lit pat) s = ci_substring pat s"
proof (induction s)
  case Nil
  show ?case by (cases pat) (simp_all add: ci_substring_def)
next
  case (Cons c cs)
  have "re_search (map Lit pat) (c # cs)
        = (prefix (map lower_char pat) (map lower_char (c # cs)) \<or> ci_substring pat cs)"
    using Cons.IH by (simp only: re_search.simps match_here_Lit)
  also have "\<dots> = ci_substring pat (c # cs)"
    by (simp add: ci_substring_def sublist_Cons_right)
  finally show ?case .
qed

lemma str_contains_plain:
  assumes "list_all (\<lambda>c. \<not> is_special c) pat"
  shows "str_contains re_ext pat = Some (ci_substring pat)"
proof -
  have "re_search (map Lit pat) = ci_substring pat"
    by (rule ext) (rule re_search_Lit)
  with re_parse_simple_plain [OF assms] show ?thesis
    by (simp add: str_contains_def)
qed

lemma filter_contains_plain:
  assumes "plain q"
  shows "filter_contains re_ext q col rows = Inr (filter (\<lambda>r. field_ok q (col r)) rows)"
proof (cases q)
  case None
  then show ?thesis by (simp add: field_ok_def)
next
  case (Some pat)
  with assms have p: "list_all (\<lambda>c. \<not> is_special c) pat" by (simp add: plain_def)
  show ?thesis
  proof (cases "pat = []")
    case True
    with Some show ?thesis by (simp add: field_ok_def ci_substring_def)
  next
    case False
    with Some str_contains_plain [OF p, of re_ext] show ?thesis
      by (simp add: field_ok_def)
  qed
qed

lemma apply_filters_plain:
  assumes "plain genre" and "plain director_arg" and "plain country_arg"
  shows "apply_filters re_ext netflix_data genre director_arg country_arg content_type min_year
         = Inr (filter (passes genre director_arg country_arg content_type min_year) netflix_data)"
proof -
  have "filter (\<lambda>r. year_ge r min_year)
          (if content_type \<noteq> ''Both''
           then filter (\<lambda>r. type r = content_type)
                  (filter (\<lambda>r. field_ok country_arg (country r))
                     (filter (\<lambda>r. field_ok director_arg (director r))
                        (filter (\<lambda>r. field_ok genre (listed_in r)) netflix_data)))
           else filter (\<lambda>r. field_ok country_arg (country r))
                  (filter (\<lambda>r. field_ok director_arg (director r))
                     (filter (\<lambda>r. field_ok genre (listed_in r)) netflix_data)))
        = filter (passes genre director_arg country_arg content_type min_year) netflix_data"
    by (auto simp: passes_def year_ge_def intro!: filter_cong split: option.splits)
  then show ?thesis
    by (simp only: apply_filters_def filter_contains_plain [OF assms(1)]
          filter_contains_plain [OF assms(2)] filter_contains_plain [OF assms(3)] sum.case)
qed

lemma plain_dramas: "plain (Some ''Dramas'')" "plain None"
  by (simp_all add: plain_def is_special_def)

lemma passes_dramas:
  "filter (passes (Some ''Dramas'') None None ''Both'' 2000) [row_A, row_B] = [row_A, row_B]"
  by code_simp

lemma accented_capital_matches:
  "ci_substring [CHR 0xE9, CHR ''p'', CHR ''o'', CHR ''p'']
     [CHR 0xC9, CHR ''p'', CHR ''o'', CHR ''p'', CHR 0xE9, CHR ''e'']"
  by code_simp

lemma compiled_no_match_empty:
  assumes "genre \<noteq> []" and "str_contains re_ext genre = Some found"
    and "\<forall>r \<in> set cat. \<not> found (listed_in r)"
    and "apply_filters re_ext cat (Some genre) d c t m = Inr fs"
  shows "get_smart_recommendations re_ext cat (Some genre) d c t n m = Inr []"
proof -
  from assms(1,2) have g: "filter_contains re_ext (Some genre) listed_in cat
      = Inr (filter (\<lambda>r. found (listed_in r)) cat)" by simp
  from assms(3) have e: "filter (\<lambda>r. found (listed_in r)) cat = []"
    by (simp add: filter_empty_conv)
  from assms(4) g e obtain f2 f3 where
    f2: "filter_contains re_ext d director [] = Inr f2" and
    f3: "filter_contains re_ext c country f2 = Inr f3" and
    fs: "fs = filter (\<lambda>r. year_ge r m)
                (if t \<noteq> ''Both'' then filter (\<lambda>r. type r = t) f3 else f3)"
    by (auto simp: apply_filters_def split: sum.splits)
  from f2 obtain P2 where "f2 = filter P2 []" using filter_contains_Inr by blast
  then have "f2 = []" by simp
  with f3 obtain P3 where "f3 = filter P3 []" using filter_contains_Inr by blast
  then have "f3 = []" by simp
  with fs have "fs = []" by simp
  with assms(4) recommendations_of_filtered [of re_ext cat "Some genre" d c t m fs n]
  show ?thesis by (simp add: head_def sort_values_def)
qed

subsection \<open>The sort key and the order it stands for\<close>

lemma rank_key_le: "rank_key a \<le> rank_key b \<longleftrightarrow> ranked_before a b"
  by (auto simp: rank_key_def year_key_def ranked_before_def less_eq_prod_def
        split: option.splits)

lemma rank_key_eq:
  "rank_key a = rank_key b \<longleftrightarrow>
     popularity_score a = popularity_score b \<and> release_year a = release_year b"
  by (auto simp: rank_key_def year_key_def split: option.splits)

lemma sorted_sort_values: "sorted_wrt ranked_before (sort_values rows)"
proof -
  have "sorted (map rank_key (sort_key rank_key rows))" by (rule sorted_sort_key)
  then show ?thesis by (simp add: sort_values_def sorted_map rank_key_le)
qed

lemma sorted_wrt_prefix: "prefix xs ys \<Longrightarrow> sorted_wrt R ys \<Longrightarrow> sorted_wrt R xs"
  by (auto simp: prefix_def sorted_wrt_append)

lemma sort_values_stable:
  "filter (\<lambda>s. popularity_score s = p \<and> release_year s = y) (sort_values rows)
   = filter (\<lambda>s. popularity_score s = p \<and> release_year s = y) rows"
proof (cases "\<exists>s \<in> set rows. popularity_score s = p \<and> release_year s = y")
  case True
  then obtain s0 :: scored_record where s0: "popularity_score s0 = p" "release_year s0 = y" by blast
  have eq: "(\<lambda>s. popularity_score s = p \<and> release_year s = y)
            = (\<lambda>s. rank_key s = rank_key s0)"
    by (rule ext) (simp add: rank_key_eq s0)
  show ?thesis
    unfolding eq sort_values_def by (rule sort_key_stable)
next
  case False
  then have "filter (\<lambda>s. popularity_score s = p \<and> release_year s = y) rows = []"
    by (simp add: filter_empty_conv)
  moreover from False
  have "filter (\<lambda>s. popularity_score s = p \<and> release_year s = y) (sort_values rows) = []"
    by (simp add: filter_empty_conv set_sort_values)
  ultimately show ?thesis by simp
qed

subsection \<open>What a \<open>Counter\<close> holds\<close>

lemma map_of_counter_add:
  "map_of (counter_add x kcs)
   = (map_of kcs)(x \<mapsto> (case map_of kcs x of None \<Rightarrow> 1 | Some c \<Rightarrow> c + 1))"
  by (induction kcs) (auto simp: fun_eq_iff)

lemma keys_counter_add:
  "set (map fst (counter_add x kcs)) = insert x (set (map fst kcs))"
  by (induction x kcs rule: counter_add.induct) auto

lemma distinct_counter_add:
  "distinct (map fst kcs) \<Longrightarrow> distinct (map fst (counter_add x kcs))"
proof (induction x kcs rule: counter_add.induct)
  case (1 x)
  show ?case by simp
next
  case (2 x k c kcs)
  show ?case
  proof (cases "k = x")
    case True
    with "2.prems" show ?thesis by simp
  next
    case False
    with "2.prems" "2.IH" have "distinct (map fst (counter_add x kcs))" by simp
    moreover from False "2.prems" have "k \<notin> set (map fst (counter_add x kcs))"
      by (simp only: keys_counter_add) auto
    ultimately show ?thesis using False by simp
  qed
qed

lemma Counter_snoc: "Counter (xs @ [x]) = counter_add x (Counter xs)"
  by (simp add: Counter_def)

lemma distinct_Counter: "distinct (map fst (Counter xs))"
proof (induction xs rule: rev_induct)
  case Nil
  show ?case by (simp add: Counter_def)
next
  case (snoc x xs)
  then show ?case by (simp only: Counter_snoc distinct_counter_add)
qed

lemma map_of_Counter:
  "map_of (Counter xs) k = (if k \<in> set xs then Some (count_list xs k) else None)"
proof (induction xs rule: rev_induct)
  case Nil
  show ?case by (simp add: Counter_def)
next
  case (snoc x xs)
  show ?case
    unfolding Counter_snoc map_of_counter_add using snoc.IH by auto
qed

lemma Counter_entry:
  "(k, c) \<in> set (Counter xs) \<longleftrightarrow> k \<in> set xs \<and> c = count_list xs k"
proof -
  have "(k, c) \<in> set (Counter xs) \<longleftrightarrow> map_of (Counter xs) k = Some c"
    using distinct_Counter [of xs] by simp
  then show ?thesis by (auto simp: map_of_Counter)
qed


subsection \<open>Tokens of the option lists and of the analysis\<close>



lemma tokens_empty: "tokens [] = [[]]"
  by (simp add: tokens_def strip_def)

lemma count_blank_tokens:
  "count_list (collect_all col) []
   = length (filter (\<lambda>s. s = []) col) + count_list (collect_nonempty col) []"
  by (induction col) (simp_all add: tokens_empty)

lemma blank_tally:
  assumes "0 < length (filter (\<lambda>r. col r = []) data)"
  shows "([], length (filter (\<lambda>r. col r = []) data)
              + count_list (collect_nonempty (map col data)) [])
         \<in> set (Counter (collect_all (map col data)))"
proof -
  have f: "length (filter (\<lambda>s. s = []) (map col data))
           = length (filter (\<lambda>r. col r = []) data)"
    by (simp add: filter_map comp_def)
  have c: "count_list (collect_all (map col data)) []
        = length (filter (\<lambda>r. col r = []) data)
          + count_list (collect_nonempty (map col data)) []"
    using count_blank_tokens [of "map col data"] f by simp
  with assms have "0 < count_list (collect_all (map col data)) []" by simp
  then have "[] \<in> set (collect_all (map col data))"
    using count_list_0_iff [of "collect_all (map col data)" "[]"] by auto
  with c show ?thesis by (simp add: Counter_entry)
qed

lemma blank_example_premise: "0 < length (filter (\<lambda>r. listed_in r = []) [row_E, row_T])"
  by (simp add: row_E_def row_T_def)

lemma blank_example_tally:
  "Counter (collect_all (map listed_in [row_E, row_T])) = [([], 2), (''Dramas'', 1)]"
  by code_simp

lemma blank_example_top:
  "top_genres (analyze_netflix_data [row_E, row_T]) = [([], 2), (''Dramas'', 1)]"
  by code_simp

lemma blank_example_count:
  "length (filter (\<lambda>r. listed_in r = []) [row_E, row_T]) = 1"
  by (simp add: row_E_def row_T_def)

lemma no_break_space_stripped: "strip [CHR 0xA0, CHR ''X'', CHR 0x85] = ''X''"
  by code_simp










section \<open>Scoring\<close>

text \<open>
  C1 (as amended). For every row of a result, the release year is known and the recency
  part of \<open>popularity_score\<close> is cumulative: the three bonus statements are applied one
  after the other to every row that meets their threshold, so the part is 6 from 2018 on
  (3 + 2 + 1), 3 from 2015 on (2 + 1), 1 from 2010 on and 0 before. The score is this
  part plus half of \<open>genre_count\<close>.
\<close>

theorem recency_cumulative:
  assumes "get_smart_recommendations re_ext cat g d c t n m = Inr res" and "s \<in> set res"
  shows "\<exists>y. release_year s = Some y \<and>
           popularity_score s =
             (if 2018 \<le> y then 6 else if 2015 \<le> y then 3 else if 2010 \<le> y then 1 else 0)
             + of_int (genre_count s) * (1 / 2)"
proof -
  from assms obtain r where r: "s = score_row r" "year_ge r m"
    using recommendations_rows by blast
  from r(2) obtain y where y: "release_year r = Some y"
    by (auto simp: year_ge_def split: option.splits)
  show ?thesis
    using recency_score_cases [OF y] y by (simp add: r(1) score_row_sel)
qed

text \<open>The theorem at the running example, for row A (2019, two genres).\<close>

theorem recency_cumulative_witness:
  "get_smart_recommendations re_refuse [row_A, row_B] (Some ''Dramas'') None None ''Both'' 10 2000
     = Inr [score_row row_A, score_row row_B]
   \<and> score_row row_A \<in> set [score_row row_A, score_row row_B]
   \<and> (\<exists>y. release_year (score_row row_A) = Some y \<and>
           popularity_score (score_row row_A) =
             (if 2018 \<le> y then 6 else if 2015 \<le> y then 3 else if 2010 \<le> y then 1 else 0)
             + of_int (genre_count (score_row row_A)) * (1 / 2))"
proof -
  have h: "get_smart_recommendations re_refuse [row_A, row_B] (Some ''Dramas'') None None ''Both'' 10 2000
     = Inr [score_row row_A, score_row row_B]" by code_simp
  have m: "score_row row_A \<in> set [score_row row_A, score_row row_B]" by simp
  from recency_cumulative [OF h m] h m show ?thesis by blast
qed

text \<open>
  C1 as stated fails: row A of the running example survives the filter with release year
  2019, and the recency part of its score is 6, not 3 (its score is 7, not 4).
\<close>

theorem recency_tier_counterexample:
  "get_smart_recommendations re_refuse [row_A, row_B] (Some ''Dramas'') None None ''Both'' 10 2000
     = Inr [score_row row_A, score_row row_B]
   \<and> release_year row_A = Some 2019
   \<and> genre_count (score_row row_A) = 2
   \<and> popularity_score (score_row row_A) = 6 + 2 * (1 / 2)
   \<and> popularity_score (score_row row_A) \<noteq> 3 + 2 * (1 / 2)"
proof -
  have "release_year row_A = Some 2019" by (simp add: row_A_def)
  then show ?thesis using example_result row_A_score row_A_genre_count by simp
qed

text \<open>
  C2. The claim wants \<open>genre_count = 0\<close> for an empty \<open>listed_in\<close>. The function computes
  \<open>str.count(',') + 1\<close> for every row: row E, whose \<open>listed_in\<close> is the empty string,
  survives a search for its director with \<open>genre_count = 1\<close>, and the count adds one half
  to its score.
\<close>

theorem empty_listed_in_counts_one:
  "get_smart_recommendations re_refuse [row_E] None (Some ''X'') None ''Both'' 10 1900
     = Inr [score_row row_E]
   \<and> listed_in row_E = []
   \<and> genre_count (score_row row_E) = 1
   \<and> popularity_score (score_row row_E) = 1 / 2"
proof -
  have a: "get_smart_recommendations re_refuse [row_E] None (Some ''X'') None ''Both'' 10 1900
     = Inr [score_row row_E]" by code_simp
  have b: "listed_in row_E = []" by (simp add: row_E_def)
  have c: "genre_count (score_row row_E) = 1"
    by (simp add: score_row_sel genre_count_of_def count_comma_def row_E_def)
  have d: "popularity_score (score_row row_E) = 1 / 2"
    by (simp add: score_row_sel genre_count_of_def count_comma_def row_E_def
          recency_score_def add_bonus_def year_ge_def)
  from a b c d show ?thesis by simp
qed

section \<open>The predicate filter\<close>

text \<open>
  C3. The claim wants every filter string matched as a plain substring. The function hands
  the string to \<open>str.contains\<close> with its default \<open>regex=True\<close>: the genre filter \<open>.\<close>
  keeps row B, whose \<open>listed_in\<close> is \<open>Dramas\<close> and holds no dot, because the dot of a
  regular expression matches any character.
\<close>

theorem dot_pattern_matches_any_character:
  "get_smart_recommendations re_refuse [row_B] (Some ''.'') None None ''Both'' 10 1900
     = Inr [score_row row_B]
   \<and> listed_in row_B = ''Dramas''
   \<and> \<not> ci_substring ''.'' ''Dramas''"
proof -
  have a: "get_smart_recommendations re_refuse [row_B] (Some ''.'') None None ''Both'' 10 1900
     = Inr [score_row row_B]" by code_simp
  have b: "listed_in row_B = ''Dramas''" by (simp add: row_B_def)
  have c: "\<not> ci_substring ''.'' ''Dramas''" by code_simp
  from a b c show ?thesis by simp
qed

text \<open>
  C6. Every row of a result is a scored row of the catalog whose release year is known and
  not below \<open>min_year\<close>; so a row whose year is NaN is in no result, whatever the minimum.
\<close>

theorem result_years_known:
  assumes "get_smart_recommendations re_ext cat g d c t n m = Inr res" and "s \<in> set res"
  shows "\<exists>r y. r \<in> set cat \<and> s = score_row r \<and> release_year r = Some y
           \<and> release_year s = Some y \<and> m \<le> y"
proof -
  from assms obtain r where r: "r \<in> set cat" "s = score_row r" "year_ge r m"
    using recommendations_rows by blast
  from r(3) obtain y where y: "release_year r = Some y" "m \<le> y"
    by (auto simp: year_ge_def split: option.splits)
  from r(1,2) y show ?thesis by (auto simp: score_row_sel)
qed

text \<open>The theorem for row B (2010) of the running example, with minimum year 2000.\<close>

theorem result_years_known_witness:
  "get_smart_recommendations re_refuse [row_A, row_B] (Some ''Dramas'') None None ''Both'' 10 2000
     = Inr [score_row row_A, score_row row_B]
   \<and> score_row row_B \<in> set [score_row row_A, score_row row_B]
   \<and> (\<exists>r y. r \<in> set [row_A, row_B] \<and> score_row row_B = score_row r
           \<and> release_year r = Some y \<and> release_year (score_row row_B) = Some y \<and> 2000 \<le> y)"
proof -
  have m: "score_row row_B \<in> set [score_row row_A, score_row row_B]" by simp
  from result_years_known [OF example_result m] example_result m show ?thesis by blast
qed

text \<open>
  C9. The claim wants the normal empty result, never an error, for a genre string that
  matches no record. The genre string \<open>(\<close> is a substring of no \<open>listed_in\<close> field of
  rows A and B, and the call fails on it with a pattern error, for every catalog, every
  engine and all other arguments: the string is compiled as a regular expression, as
  in C3. (For a string that can be compiled and matches no \<open>listed_in\<close> field the result
  is the empty one: \<open>compiled_no_match_empty\<close>.)
\<close>

theorem unclosed_group_raises:
  "get_smart_recommendations re_ext netflix_data (Some ''('') director_arg country_arg
     content_type count min_year = Inl RegexError
   \<and> \<not> ci_substring ''('' (listed_in row_A)
   \<and> \<not> ci_substring ''('' (listed_in row_B)"
proof -
  have p: "re_parse_simple ''('' = None" by code_simp
  have u: "re_unterminated ''(''" by code_simp
  have "str_contains re_ext ''('' = None" by (simp only: str_contains_def p u option.case if_True)
  then have "filter_contains re_ext (Some ''('') listed_in netflix_data = Inl RegexError"
    by simp
  then have a: "get_smart_recommendations re_ext netflix_data (Some ''('') director_arg
     country_arg content_type count min_year = Inl RegexError"
    by (simp add: get_smart_recommendations_def apply_filters_def)
  have b: "\<not> ci_substring ''('' (listed_in row_A)" by code_simp
  have c: "\<not> ci_substring ''('' (listed_in row_B)" by code_simp
  from a b c show ?thesis by simp
qed

section \<open>Truncation\<close>

text \<open>
  C4 (as amended). The function validates nothing: with \<open>count \<le> 0\<close> it filters, scores
  and sorts as usual and returns \<open>head(count)\<close> of the ranking, which is empty for
  \<open>count = 0\<close> and all rows but the last \<open>-count\<close> for \<open>count < 0\<close>. It fails only when the
  filter itself fails on a pattern.
\<close>

theorem nonpositive_count_not_rejected:
  assumes "count \<le> 0"
    and "apply_filters re_ext cat g d c t m = Inr fs"
  shows "get_smart_recommendations re_ext cat g d c t count m
         = Inr (if count = 0 then []
                else take (length fs - nat (- count)) (sort_values (map score_row fs)))"
proof -
  have "head count (sort_values (map score_row fs))
        = (if count = 0 then []
           else take (length fs - nat (- count)) (sort_values (map score_row fs)))"
    using assms(1) by (simp add: head_def length_sort_values)
  with recommendations_of_filtered [OF assms(2), of count] show ?thesis by simp
qed

text \<open>The theorem for \<open>count = -1\<close> on the running example: row A is returned.\<close>

theorem nonpositive_count_not_rejected_witness:
  "(-1::int) \<le> 0
   \<and> apply_filters re_refuse [row_A, row_B] (Some ''Dramas'') None None ''Both'' 2000
       = Inr [row_A, row_B]
   \<and> get_smart_recommendations re_refuse [row_A, row_B] (Some ''Dramas'') None None ''Both''
         (-1) 2000 = Inr [score_row row_A]"
proof -
  have h: "(-1::int) \<le> 0" by simp
  from nonpositive_count_not_rejected [OF h example_filtered] example_filtered example_sorted
  show ?thesis by simp
qed

text \<open>
  C4 as stated fails: with \<open>count = -1\<close> the running example returns a scored row, and
  with \<open>count = 0\<close> it returns the normal empty result; neither call is rejected.
\<close>

theorem validation_counterexample:
  "get_smart_recommendations re_refuse [row_A, row_B] (Some ''Dramas'') None None ''Both''
     (-1) 2000 = Inr [score_row row_A]
   \<and> get_smart_recommendations re_refuse [row_A, row_B] (Some ''Dramas'') None None ''Both''
     0 2000 = Inr []"
proof -
  have a: "get_smart_recommendations re_refuse [row_A, row_B] (Some ''Dramas'') None None
     ''Both'' (-1) 2000 = Inr [score_row row_A]" by code_simp
  have b: "get_smart_recommendations re_refuse [row_A, row_B] (Some ''Dramas'') None None
     ''Both'' 0 2000 = Inr []" by code_simp
  from a b show ?thesis by simp
qed

text \<open>
  C5 (as amended). When every filter string that is supplied consists of ordinary
  characters only, the call returns a sequence, and its length is determined by the count
  and the number of catalog rows that pass the predicate filter of the specification:
  their minimum when the count is not negative (so the length never exceeds the count),
  and the number of passing rows less \<open>-count\<close>, but not below 0, when the count is
  negative.
\<close>

theorem result_length:
  assumes "plain genre" and "plain director_arg" and "plain country_arg"
  shows "\<exists>res. get_smart_recommendations re_ext netflix_data genre director_arg country_arg
                 content_type count min_year = Inr res
           \<and> int (length res)
             = (if 0 \<le> count
                then min count
                       (int (length (filter (passes genre director_arg country_arg content_type
                                               min_year) netflix_data)))
                else max 0
                       (int (length (filter (passes genre director_arg country_arg content_type
                                               min_year) netflix_data)) + count))"
proof -
  let ?fs = "filter (passes genre director_arg country_arg content_type min_year) netflix_data"
  have f: "apply_filters re_ext netflix_data genre director_arg country_arg content_type
             min_year = Inr ?fs"
    using assms by (rule apply_filters_plain)
  have "int (length (head count (sort_values (map score_row ?fs))))
        = (if 0 \<le> count then min count (int (length ?fs))
           else max 0 (int (length ?fs) + count))"
    by (simp only: head_length length_sort_values length_map)
  with recommendations_of_filtered [OF f, of count] show ?thesis by blast
qed

text \<open>The theorem for \<open>count = 1\<close> on the running example, where two rows pass.\<close>

theorem result_length_witness:
  "plain (Some ''Dramas'') \<and> plain None
   \<and> filter (passes (Some ''Dramas'') None None ''Both'' 2000) [row_A, row_B] = [row_A, row_B]
   \<and> get_smart_recommendations re_refuse [row_A, row_B] (Some ''Dramas'') None None ''Both''
        1 2000 = Inr [score_row row_A]
   \<and> (\<exists>res. get_smart_recommendations re_refuse [row_A, row_B] (Some ''Dramas'') None None
               ''Both'' 1 2000 = Inr res
           \<and> int (length res) = min 1 (int (length [row_A, row_B])))"
  using result_length [OF plain_dramas(1) plain_dramas(2) plain_dramas(2),
      of re_refuse "[row_A, row_B]" "''Both''" 1 2000]
    plain_dramas passes_dramas example_first
  by simp

text \<open>
  C5 as stated fails: with \<open>count = -1\<close> the running example, where two rows pass,
  returns one row; the length 1 is not the minimum of -1 and 2, and it exceeds the count.
\<close>

theorem negative_count_length_counterexample:
  "get_smart_recommendations re_refuse [row_A, row_B] (Some ''Dramas'') None None ''Both''
     (- 1) 2000 = Inr [score_row row_A]
   \<and> filter (passes (Some ''Dramas'') None None ''Both'' 2000) [row_A, row_B] = [row_A, row_B]
   \<and> int (length [score_row row_A]) \<noteq> min (- 1) (int (length [row_A, row_B]))
   \<and> \<not> int (length [score_row row_A]) \<le> - 1"
  using example_minus_one passes_dramas by simp

section \<open>Ranking\<close>

text \<open>
  C8. The result is sorted by score descending, then release year descending, and the
  sort is stable: the rows of the result that have a given score and a given release year
  are a prefix of the rows of the catalog that pass the filter and have that score and
  year, in catalog order (the rows that pass are a subsequence of the catalog).
\<close>

theorem ranking_stable:
  assumes "apply_filters re_ext cat g d c t m = Inr fs"
  shows "\<exists>res. get_smart_recommendations re_ext cat g d c t n m = Inr res
           \<and> sorted_wrt ranked_before res
           \<and> prefix (filter (\<lambda>s. popularity_score s = p \<and> release_year s = y) res)
               (map score_row
                  (filter (\<lambda>r. popularity_score (score_row r) = p \<and> release_year r = y) fs))
           \<and> subseq fs cat"
proof -
  let ?P = "\<lambda>s. popularity_score s = p \<and> release_year s = y"
  let ?all = "sort_values (map score_row fs)"
  let ?res = "head n ?all"
  have r: "get_smart_recommendations re_ext cat g d c t n m = Inr ?res"
    by (rule recommendations_of_filtered [OF assms])
  have s: "sorted_wrt ranked_before ?res"
    by (rule sorted_wrt_prefix [OF head_prefix sorted_sort_values])
  have "prefix (filter ?P ?res) (filter ?P ?all)"
    by (rule filter_mono_prefix [OF head_prefix])
  also have "filter ?P ?all = filter ?P (map score_row fs)"
    by (rule sort_values_stable)
  also have "\<dots> = map score_row
                  (filter (\<lambda>r. popularity_score (score_row r) = p \<and> release_year r = y) fs)"
    by (simp add: filter_map comp_def score_row_sel)
  finally have st: "prefix (filter ?P ?res)
      (map score_row (filter (\<lambda>r. popularity_score (score_row r) = p \<and> release_year r = y) fs))" .
  from apply_filters_Inr [OF assms] obtain Q where "fs = filter Q cat" by blast
  then have q: "subseq fs cat" by simp
  from r s st q show ?thesis by blast
qed

text \<open>
  The theorem for the catalog B, A, C: rows B and C tie at score 3/2 and year 2010, and
  B stays before C.
\<close>

theorem ranking_stable_witness:
  "apply_filters re_refuse [row_B, row_A, row_C] None None None ''Both'' 2000
     = Inr [row_B, row_A, row_C]
   \<and> (\<exists>res. get_smart_recommendations re_refuse [row_B, row_A, row_C] None None None ''Both''
               10 2000 = Inr res
         \<and> res = [score_row row_A, score_row row_B, score_row row_C]
         \<and> sorted_wrt ranked_before res
         \<and> prefix (filter (\<lambda>s. popularity_score s = 3 / 2 \<and> release_year s = Some 2010) res)
             (map score_row
                (filter (\<lambda>r. popularity_score (score_row r) = 3 / 2 \<and> release_year r = Some 2010)
                   [row_B, row_A, row_C]))
         \<and> subseq [row_B, row_A, row_C] [row_B, row_A, row_C])"
  using ranking_stable [OF tie_filtered, of 10 "3 / 2" "Some 2010"] tie_filtered tie_result
  by auto

section \<open>The option lists\<close>




section \<open>The analysis\<close>

text \<open>
  C10 (as amended). Let \<open>col\<close> be \<open>listed_in\<close> or \<open>country\<close>. When \<open>n > 0\<close> rows have an
  empty \<open>col\<close>, the tally of the analysis holds the empty token with the count \<open>n\<close> plus
  the number of empty tokens that the rows with a non-empty \<open>col\<close> contribute (a trailing
  comma, a blank between two commas); \<open>top_genres\<close> and \<open>top_countries\<close> are the ten most
  common entries of these tallies.
\<close>

theorem blank_tokens_are_tallied:
  assumes "0 < length (filter (\<lambda>r. col r = []) data)"
  shows "([], length (filter (\<lambda>r. col r = []) data)
              + count_list (collect_nonempty (map col data)) [])
           \<in> set (Counter (collect_all (map col data)))
         \<and> top_genres (analyze_netflix_data data)
             = most_common 10 (Counter (collect_all (map listed_in data)))
         \<and> top_countries (analyze_netflix_data data)
             = most_common 10 (Counter (collect_all (map country data)))"
  using blank_tally [OF assms] by (simp add: analyze_netflix_data_def Let_def)

text \<open>The theorem for the catalog E, T: the empty token is the most common genre.\<close>

theorem blank_tokens_are_tallied_witness:
  "0 < length (filter (\<lambda>r. listed_in r = []) [row_E, row_T])
   \<and> ([], length (filter (\<lambda>r. listed_in r = []) [row_E, row_T])
              + count_list (collect_nonempty (map listed_in [row_E, row_T])) [])
           \<in> set (Counter (collect_all (map listed_in [row_E, row_T])))
   \<and> top_genres (analyze_netflix_data [row_E, row_T]) = [([], 2), (''Dramas'', 1)]"
  using blank_tokens_are_tallied [OF blank_example_premise] blank_example_premise
    blank_example_top
  by simp

text \<open>
  C10 as stated fails: in the catalog E, T one row has an empty \<open>listed_in\<close>, and the
  tally holds the empty token with count 2, not 1, because \<open>Dramas,\<close> ends in a comma.
\<close>

theorem blank_tally_counterexample:
  "length (filter (\<lambda>r. listed_in r = []) [row_E, row_T]) = 1
   \<and> Counter (collect_all (map listed_in [row_E, row_T])) = [([], 2), (''Dramas'', 1)]
   \<and> ([], 1) \<notin> set (Counter (collect_all (map listed_in [row_E, row_T])))"
  using blank_example_count blank_example_tally by simp

end
